theory Spec2Isabelle
  imports Main "HOL-Library.Sublist"
begin

section \<open>The preview engine of vscode-restructuredtext (src/preview/rstEngine.ts)\<close>

text \<open>
  The class \<open>RSTEngine\<close> resolves the HTML preview of a reStructuredText document. This
  theory embeds its methods (\<open>errorSnippet\<close>, \<open>compile\<close>, \<open>previewPage\<close>, \<open>fixLinks\<close>,
  \<open>showHelp\<close>, \<open>showWait\<close>, \<open>preview\<close>) as HOL functions.

  Conventions of the embedding:
  \<^item> a JavaScript string is a \<open>string\<close>, one \<open>char\<close> per code unit;
  \<^item> the result of an operation that may throw, or of a promise that may reject, is a
    value of \<open>js_error + 'a\<close> (\<open>Inl\<close> the thrown value);
  \<^item> every call on a collaborator (logger, file system, status bar, Python runner) is
    recorded as an \<open>event\<close>, so a run of a method yields its outcome together with the
    list of events in program order;
  \<^item> the collaborators themselves are not part of the class: their answers are the
    fields of the record \<open>world\<close>, read by the methods; the engine reads them anew
    after each await, so an awaited method of a collaborator resolves in a world that
    may differ from the one it was called in;
  \<^item> \<open>path\<close> is the POSIX flavour of the Node.js module.
\<close>

subsection \<open>String primitives of JavaScript\<close>

definition startsWith :: "string \<Rightarrow> string \<Rightarrow> bool" where
  "startsWith s p = (take (length p) s = p)"

text \<open>
  \<open>toLowerCase\<close> on the letters A to Z; every other code unit is kept. The engine
  lowers a string only to test whether it starts with \<open>http://\<close> or \<open>https://\<close>, and
  the regular expression of \<open>fixLinks\<close> ignores case on the letters of \<open>src\<close> and
  \<open>href\<close>: no character outside A to Z is lowered to one of these letters, so both
  tests come out as in JavaScript.
\<close>

definition lowerChar :: "char \<Rightarrow> char" where
  "lowerChar c =
     (case map_of (zip ''ABCDEFGHIJKLMNOPQRSTUVWXYZ'' ''abcdefghijklmnopqrstuvwxyz'') c of
        Some l \<Rightarrow> l
      | None \<Rightarrow> c)"

definition toLowerCase :: "string \<Rightarrow> string" where
  "toLowerCase s = map lowerChar s"

text \<open>\<open>s.indexOf(c)\<close> and \<open>s.lastIndexOf(c)\<close> for a one-character pattern: -1 when absent.\<close>

fun indexOf :: "string \<Rightarrow> char \<Rightarrow> int" where
  "indexOf [] c = -1"
| "indexOf (x # xs) c =
     (if x = c then 0 else (let i = indexOf xs c in if i < 0 then -1 else i + 1))"

fun lastIndexOf :: "string \<Rightarrow> char \<Rightarrow> int" where
  "lastIndexOf [] c = -1"
| "lastIndexOf (x # xs) c =
     (let i = lastIndexOf xs c in
      if 0 \<le> i then i + 1 else if x = c then 0 else -1)"

text \<open>
  \<open>s.substring(a, b)\<close>: both indices are clamped to \<open>0 .. s.length\<close> and swapped when
  \<open>a > b\<close>.
\<close>

definition substring :: "string \<Rightarrow> int \<Rightarrow> int \<Rightarrow> string" where
  "substring s a b =
     (let n = int (length s);
          a' = max 0 (min a n);
          b' = max 0 (min b n);
          lo = min a' b';
          hi = max a' b'
      in take (nat (hi - lo)) (drop (nat lo) s))"

text \<open>\<open>[a, b, c].join(sep)\<close> on an array of strings.\<close>

fun joinWith :: "string \<Rightarrow> string list \<Rightarrow> string" where
  "joinWith sep [] = []"
| "joinWith sep [x] = x"
| "joinWith sep (x # y # ys) = x @ sep @ joinWith sep (y # ys)"

subsection \<open>The \<open>path\<close> module of Node.js, POSIX flavour\<close>

text \<open>
  The module is a library of the runtime, used by \<open>compile\<close> and \<open>fixLinks\<close>. Its
  functions are modelled after the algorithm of \<open>lib/path.js\<close>: \<open>normalizeString\<close> walks the
  segments between slashes, drops empty segments and \<open>.\<close>, and lets \<open>..\<close> remove the segment
  before it.
\<close>

definition isSlash :: "char \<Rightarrow> bool" where
  "isSlash c = (c = CHR ''/'')"

fun splitSlash :: "string \<Rightarrow> string list" where
  "splitSlash [] = [[]]"
| "splitSlash (c # cs) =
     (if isSlash c then [] # splitSlash cs
      else (case splitSlash cs of
              [] \<Rightarrow> [[c]]
            | s # ss \<Rightarrow> (c # s) # ss))"

text \<open>One segment of \<open>normalizeString\<close>; \<open>res\<close> is the list of segments kept so far.\<close>

definition normStep :: "bool \<Rightarrow> string list \<Rightarrow> string \<Rightarrow> string list" where
  "normStep allowAboveRoot res seg =
     (if seg = [] \<or> seg = ''.'' then res
      else if seg = ''..'' then
        (if res \<noteq> [] \<and> last res \<noteq> ''..'' then butlast res
         else if allowAboveRoot then res @ [''..'']
         else res)
      else res @ [seg])"

definition normalizeString :: "string \<Rightarrow> bool \<Rightarrow> string" where
  "normalizeString p allowAboveRoot =
     joinWith ''/'' (foldl (normStep allowAboveRoot) [] (splitSlash p))"

definition isAbsolute :: "string \<Rightarrow> bool" where
  "isAbsolute p = (case p of [] \<Rightarrow> False | c # _ \<Rightarrow> isSlash c)"

definition normalize :: "string \<Rightarrow> string" where
  "normalize p =
     (if p = [] then ''.''
      else
        let trailingSeparator = isSlash (last p);
            q = normalizeString p (\<not> isAbsolute p)
        in if q = [] then
             (if isAbsolute p then ''/'' else if trailingSeparator then ''./'' else ''.'')
           else
             (let q' = (if trailingSeparator then q @ ''/'' else q)
              in if isAbsolute p then ''/'' @ q' else q'))"

text \<open>\<open>path.join(...args)\<close>: the non-empty arguments, joined by a slash and normalized.\<close>

definition join :: "string list \<Rightarrow> string" where
  "join args =
     (let parts = filter (\<lambda>a. a \<noteq> []) args
      in if parts = [] then ''.'' else normalize (joinWith ''/'' parts))"

text \<open>
  \<open>path.dirname\<close>: scanning from the right over indices \<open>length - 1 .. 1\<close>, trailing
  slashes are skipped, then the last segment; \<open>end\<close> is the index of the slash before it.
\<close>

definition dirname :: "string \<Rightarrow> string" where
  "dirname p =
     (case p of
        [] \<Rightarrow> ''.''
      | c # cs \<Rightarrow>
          (case dropWhile (\<lambda>x. \<not> isSlash x) (dropWhile isSlash (rev cs)) of
             [] \<Rightarrow> (if isSlash c then ''/'' else ''.'')
           | _ # r \<Rightarrow> (if isSlash c \<and> r = [] then ''//'' else c # rev r)))"

text \<open>\<open>path.basename\<close> without a suffix argument: the last non-empty segment.\<close>

definition basename :: "string \<Rightarrow> string" where
  "basename p = rev (takeWhile (\<lambda>x. \<not> isSlash x) (dropWhile isSlash (rev p)))"

text \<open>
  \<open>path.resolve\<close> of one argument; \<open>wd\<close> is the working directory of the process, used
  when the argument is not absolute.
\<close>

definition resolve :: "string \<Rightarrow> string \<Rightarrow> string" where
  "resolve wd p =
     (let r0 = (if p = [] then [] else p @ ''/'');
          abs0 = isAbsolute p;
          r1 = (if abs0 \<or> wd = [] then r0 else wd @ ''/'' @ r0);
          abs1 = (abs0 \<or> isAbsolute wd);
          q = normalizeString r1 (\<not> abs1)
      in if abs1 then ''/'' @ q else if q \<noteq> [] then q else ''.'')"

text \<open>
  \<open>path.relative(from, to)\<close>. Both paths are resolved; \<open>i\<close> is the length of their common
  prefix after the leading slash, \<open>lastCommonSep\<close> the index of the last slash in it.
\<close>

fun commonLen :: "string \<Rightarrow> string \<Rightarrow> nat" where
  "commonLen (x # xs) (y # ys) = (if x = y then Suc (commonLen xs ys) else 0)"
| "commonLen _ _ = 0"

definition relative :: "string \<Rightarrow> string \<Rightarrow> string \<Rightarrow> string" where
  "relative wd from to =
     (if from = to then []
      else
        let from' = resolve wd from;
            to' = resolve wd to
        in if from' = to' then []
           else
             let f = drop 1 from';
                 t = drop 1 to';
                 fromLen = length f;
                 toLen = length t;
                 len = min fromLen toLen;
                 i = commonLen f t;
                 sep0 = lastIndexOf (take i f) CHR ''/''
             in if i = len \<and> toLen > len \<and> isSlash (t ! i) then drop (i + 1) t
                else if i = len \<and> toLen > len \<and> i = 0 then t
                else
                  let lastCommonSep =
                        (if i = len \<and> \<not> toLen > len \<and> fromLen > len then
                           (if isSlash (f ! i) then int i
                            else if i = 0 then 0
                            else sep0)
                         else sep0);
                      ups = Suc (length (filter isSlash (drop (nat (lastCommonSep + 1)) f)));
                      out = joinWith ''/'' (replicate ups ''..'')
                  in out @ drop (nat (1 + lastCommonSep)) to')"

subsection \<open>Values and collaborators\<close>

text \<open>An error object, as thrown, or as passed to a callback: \<open>name\<close>, \<open>message\<close>, \<open>stack\<close>.\<close>

record js_error =
  name :: string
  message :: string
  stack :: "string option"

text \<open>\<open>Error.prototype.toString\<close>.\<close>

definition errorToString :: "js_error \<Rightarrow> string" where
  "errorToString e =
     (if name e = [] then message e
      else if message e = [] then name e
      else name e @ '': '' @ message e)"

record uri =
  fsPath :: string

record text_document =
  fileName :: string
  uri :: uri

text \<open>
  The webview enters the engine through \<open>asWebviewUri\<close> only: a webview is the function
  that sends a file path \<open>p\<close> to the text of \<open>webView.asWebviewUri(vscode.Uri.file(p))\<close>.
\<close>

type_synonym webview = "string \<Rightarrow> string"

record rst_config =
  confPyDirectory :: string

text \<open>
  What the engine reads from its collaborators, at one moment: \<open>esbonio_error\<close>,
  \<open>esbonio_ready\<close> and \<open>esbonio_buildDir\<close> are \<open>this.esbonio.error\<close>, \<open>this.esbonio.ready\<close>
  and \<open>this.esbonio.sphinxConfig.buildDir\<close>, \<open>python_exec\<close> is \<open>this.python.exec\<close>,
  \<open>getPreviewName\<close>, \<open>getDocutilsWriter\<close> and \<open>getDocutilsWriterPart\<close> are the static methods
  of \<open>Configuration\<close>, \<open>existsSync\<close> and \<open>readFile\<close> are those of \<open>fs\<close> (\<open>readFile\<close> gives
  the error or the data its callback receives), \<open>module_dirname\<close> is \<open>__dirname\<close>, \<open>cwd\<close> is
  \<open>process.cwd()\<close>, and \<open>typeError prop\<close> is the TypeError the runtime throws when the property
  \<open>prop\<close> of null is read.
\<close>

record world =
  esbonio_error :: bool
  esbonio_ready :: bool
  esbonio_buildDir :: string
  python_exec :: "string list \<Rightarrow> js_error + string"
  getPreviewName :: string
  getDocutilsWriter :: "uri \<Rightarrow> string"
  getDocutilsWriterPart :: "uri \<Rightarrow> string"
  existsSync :: "string \<Rightarrow> bool"
  readFile :: "string \<Rightarrow> js_error + string"
  module_dirname :: string
  cwd :: string
  typeError :: "string \<Rightarrow> js_error"

text \<open>
  The status bar object \<open>RstTransformerStatus\<close>: its field \<open>config\<close> (null is \<open>None\<close>), and
  what its asynchronous methods do. The engine awaits them, and reads its collaborators
  anew when the await returns: so a method, called in a world, rejects, or resolves in a
  world that may be another one. \<open>refreshConfig\<close> resolves leaving a value in \<open>config\<close>.
\<close>

record rst_status =
  config :: "rst_config option"
  refreshConfig :: "uri \<Rightarrow> world \<Rightarrow> js_error + rst_config option \<times> world"
  reset :: "world \<Rightarrow> js_error + world"

text \<open>The surroundings of the engine: a world, and \<open>this.status\<close> (\<open>None\<close> when null).\<close>

record env = world +
  status :: "rst_status option"

definition worldOf :: "env \<Rightarrow> world" where
  "worldOf env =
     \<lparr>esbonio_error = esbonio_error env,
      esbonio_ready = esbonio_ready env,
      esbonio_buildDir = esbonio_buildDir env,
      python_exec = python_exec env,
      getPreviewName = getPreviewName env,
      getDocutilsWriter = getDocutilsWriter env,
      getDocutilsWriterPart = getDocutilsWriterPart env,
      existsSync = existsSync env,
      readFile = readFile env,
      module_dirname = module_dirname env,
      cwd = cwd env,
      typeError = typeError env\<rparr>"

definition inWorld :: "env \<Rightarrow> world \<Rightarrow> env" where
  "inWorld env w =
     \<lparr>esbonio_error = esbonio_error w,
      esbonio_ready = esbonio_ready w,
      esbonio_buildDir = esbonio_buildDir w,
      python_exec = python_exec w,
      getPreviewName = getPreviewName w,
      getDocutilsWriter = getDocutilsWriter w,
      getDocutilsWriterPart = getDocutilsWriterPart w,
      existsSync = existsSync w,
      readFile = readFile w,
      module_dirname = module_dirname w,
      cwd = cwd w,
      typeError = typeError w,
      status = status env\<rparr>"

datatype event =
    Log string
  | ExistsSync string
  | ReadFile string
  | StatusReset
  | RefreshConfig uri
  | PythonExec "string list"

definition isFsAccess :: "event \<Rightarrow> bool" where
  "isFsAccess ev = (case ev of ExistsSync _ \<Rightarrow> True | ReadFile _ \<Rightarrow> True | _ \<Rightarrow> False)"

text \<open>
  A run: the outcome (\<open>Inl\<close> a thrown error or a rejection, \<open>Inr\<close> the value) and the
  events, in order. \<open>thenDo\<close> sequences two runs; an error ends the sequence.
\<close>

type_synonym 'a run = "(js_error + 'a) \<times> event list"

definition ret :: "'a \<Rightarrow> 'a run" where
  "ret x = (Inr x, [])"

definition throw :: "js_error \<Rightarrow> 'a run" where
  "throw e = (Inl e, [])"

definition emit :: "event \<Rightarrow> unit run" where
  "emit ev = (Inr (), [ev])"

definition thenDo :: "'a run \<Rightarrow> ('a \<Rightarrow> 'b run) \<Rightarrow> 'b run" where
  "thenDo m f =
     (case m of
        (Inl e, t) \<Rightarrow> (Inl e, t)
      | (Inr x, t) \<Rightarrow> (case f x of (r, t') \<Rightarrow> (r, t @ t')))"

definition logger_log :: "string \<Rightarrow> unit run" where
  "logger_log msg = emit (Log msg)"

subsection \<open>Status pages\<close>

definition errorSnippet :: "string \<Rightarrow> string" where
  "errorSnippet error = ''<html><body>'' @ error @ ''</body></html>''"

definition showHelp :: "string \<Rightarrow> string \<Rightarrow> string" where
  \<open>showHelp description error =
     ''<body>'' @
     ''    <section>'' @
     ''      <article>'' @
     ''        <header>'' @
     ''          <h2>Cannot show preview page.</h2>'' @
     ''          <h4>Description:</h4>'' @
     ''          '' @ description @
     ''          <h4>Detailed error message</h4>'' @
     ''          <pre>'' @ error @ ''</pre>'' @
     ''          <h4>More Information</h4>'' @
     ''          <p>Diagnostics information has been written to OUTPUT | Esbonio Language Server panel.</p>'' @
     ''          <p>The troubleshooting guide can be found at</p>'' @
     ''          <pre>https://docs.restructuredtext.net/articles/troubleshooting.html</pre>'' @
     ''        </header>'' @
     ''      </article>'' @
     ''    </section>'' @
     ''  </body>''\<close>

definition showWait :: "string" where
  \<open>showWait =
     ''<body>'' @
     ''    <section>'' @
     ''      <article>'' @
     ''        <header>'' @
     ''          <h2>Esbonio is busy.</h2>'' @
     ''          <h4>Description:</h4>'' @
     ''          <p>Esbonio is still working in the background. This panel will automatically refresh when the preview page is ready.</p>'' @
     ''          <h4>More Information</h4>'' @
     ''          <p>Diagnostics information has been written to OUTPUT | Esbonio Language Server panel.</p>'' @
     ''          <p>The troubleshooting guide can be found at</p>'' @
     ''          <pre>https://docs.restructuredtext.net/articles/troubleshooting.html</pre>'' @
     ''        </header>'' @
     ''      </article>'' @
     ''    </section>'' @
     ''  </body>''\<close>

subsection \<open>\<open>fixLinks\<close>\<close>

text \<open>
  The regular expression is \<^verbatim>\<open>((?:src|href)=['"])(.*?)(['"])\<close> with the flags \<open>gmi\<close>.
  At a position it matches \<open>src\<close> or \<open>href\<close> in any case, an equals sign and a quote, then
  the shortest run of characters other than line terminators that a quote follows. So
  the second group holds no quote, and there is no match when a line terminator or the
  end of the text comes before a quote. The line terminators of a \<open>string\<close> are the
  line feed and the carriage return (U+2028 and U+2029 are not characters of the type
  \<open>char\<close>).
\<close>

definition isQuote :: "char \<Rightarrow> bool" where
  "isQuote c = (c = CHR 0x27 \<or> c = CHR 0x22)"

definition isLineTerminator :: "char \<Rightarrow> bool" where
  "isLineTerminator c = (c = CHR 0x0A \<or> c = CHR 0x0D)"

text \<open>\<^verbatim>\<open>(.*?)(['"])\<close>: the value and the closing quote.\<close>

fun lazyValue :: "string \<Rightarrow> (string \<times> string) option" where
  "lazyValue [] = None"
| "lazyValue (c # cs) =
     (if isQuote c then Some ([], [c])
      else if isLineTerminator c then None
      else (case lazyValue cs of
              None \<Rightarrow> None
            | Some (v, q) \<Rightarrow> Some (c # v, q)))"

text \<open>\<^verbatim>\<open>(?:src|href)\<close> under the flag \<open>i\<close>: the length of the name matched.\<close>

definition attrName :: "string \<Rightarrow> nat option" where
  "attrName s =
     (if toLowerCase (take 3 s) = ''src'' then Some 3
      else if toLowerCase (take 4 s) = ''href'' then Some 4
      else None)"

text \<open>A match that starts at the head of \<open>s\<close>: the three groups.\<close>

definition matchAt :: "string \<Rightarrow> (string \<times> string \<times> string) option" where
  "matchAt s =
     (case attrName s of
        None \<Rightarrow> None
      | Some n \<Rightarrow>
          (case drop n s of
             e # q # r \<Rightarrow>
               (if e = CHR ''='' \<and> isQuote q then
                  (case lazyValue r of
                     None \<Rightarrow> None
                   | Some (p2, p3) \<Rightarrow> Some (take n s @ [e, q], p2, p3))
                else None)
           | _ \<Rightarrow> None))"

text \<open>
  The global scan of \<open>String.prototype.replace\<close>: the text is cut into the matches, found
  from left to right without overlap, and the characters between them.
\<close>

datatype piece = Plain char | Match string string string

function pieces :: "string \<Rightarrow> piece list" where
  "pieces [] = []"
| "pieces (c # cs) =
     (case matchAt (c # cs) of
        None \<Rightarrow> Plain c # pieces cs
      | Some (p1, p2, p3) \<Rightarrow>
          Match p1 p2 p3 # pieces (drop (length (p1 @ p2 @ p3)) (c # cs)))"
  by pat_completeness auto
termination
proof (relation "measure length")
  show "wf (measure length)" by simp
next
  fix c :: char and cs :: string
  show "(cs, c # cs) \<in> measure length" by simp
next
  fix c :: char and cs :: string and x2 :: "string \<times> string \<times> string"
    and p1 :: string and y :: "string \<times> string" and p2 p3 :: string
  assume "matchAt (c # cs) = Some x2" "(p1, y) = x2" "(p2, p3) = y"
  then have "matchAt (c # cs) = Some (p1, p2, p3)" by simp
  then have "0 < length (p1 @ p2 @ p3)"
    by (auto simp: matchAt_def split: option.splits list.splits if_splits)
  then show "(drop (length (p1 @ p2 @ p3)) (c # cs), c # cs) \<in> measure length"
    by simp
qed


definition replaced :: "(string \<Rightarrow> string \<Rightarrow> string \<Rightarrow> string \<Rightarrow> string) \<Rightarrow> piece \<Rightarrow> string" where
  "replaced f pc =
     (case pc of
        Plain c \<Rightarrow> [c]
      | Match p1 p2 p3 \<Rightarrow> f (p1 @ p2 @ p3) p1 p2 p3)"

text \<open>\<open>document.replace(regexp, f)\<close>: every match gives way to what \<open>f\<close> returns for it.\<close>

definition stringReplace :: "(string \<Rightarrow> string \<Rightarrow> string \<Rightarrow> string \<Rightarrow> string) \<Rightarrow> string \<Rightarrow> string" where
  "stringReplace f document = concat (map (replaced f) (pieces document))"

text \<open>The callback of \<open>fixLinks\<close>; \<open>skipped p2\<close> is the test of its first \<open>if\<close>.\<close>

definition skipped :: "string \<Rightarrow> bool" where
  "skipped p2 =
     (let lower = toLowerCase p2
      in startsWith p2 ''#'' \<or> startsWith lower ''http://'' \<or> startsWith lower ''https://'')"

definition fixLinksReplacer :: "string \<Rightarrow> webview \<Rightarrow> string \<Rightarrow> string \<Rightarrow> string \<Rightarrow> string \<Rightarrow> string" where
  "fixLinksReplacer documentPath webView subString p1 p2 p3 =
     (if skipped p2 then subString
      else
        let index = indexOf p2 CHR ''?'';
            p2' = (if index > -1 then substring p2 0 index else p2);
            newPath = join [dirname documentPath, p2'];
            newUrl = joinWith [] [p1, webView newPath, p3]
        in newUrl)"

definition fixLinks :: "string \<Rightarrow> string \<Rightarrow> webview \<Rightarrow> string" where
  "fixLinks document documentPath webView =
     stringReplace (fixLinksReplacer documentPath webView) document"

subsection \<open>\<open>previewPage\<close>\<close>

text \<open>The description of the page shown when the HTML file cannot be read.\<close>

definition cannotReadDescription :: "string \<Rightarrow> string" where
  \<open>cannotReadDescription htmlPath =
     ''<p>Cannot read preview page "'' @ htmlPath @ ''".</p>'' @
     ''                      <p>Possible causes are,</p>'' @
     ''                      <ul>'' @
     ''                      <li>A wrong "conf.py" file is selected.</li>'' @
     ''                      <li>Wrong value is set on "esbonio.sphinx.buildDir".</li>'' @
     ''                      </ul>''\<close>

definition stackText :: "js_error \<Rightarrow> string" where
  "stackText err = (case stack err of None \<Rightarrow> [] | Some s \<Rightarrow> s)"

definition previewPage :: "env \<Rightarrow> string \<Rightarrow> string \<Rightarrow> bool \<Rightarrow> webview \<Rightarrow> string run" where
  "previewPage env htmlPath input fixLinksFlag webView =
     thenDo (logger_log (''[preview] Working directory: '' @ input)) (\<lambda>_.
     thenDo (logger_log (''[preview] HTML file: '' @ htmlPath)) (\<lambda>_.
     thenDo (emit (ReadFile htmlPath)) (\<lambda>_.
       (case readFile env htmlPath of
          Inr data \<Rightarrow>
            (if fixLinksFlag then ret (fixLinks data htmlPath webView) else ret data)
        | Inl err \<Rightarrow>
            (let description = cannotReadDescription htmlPath;
                 errorMessage = joinWith [CHR 0x0A] [name err, message err, stackText err]
             in ret (showHelp description errorMessage))))))"

subsection \<open>\<open>compile\<close>\<close>

text \<open>
  Lines 64 to 70 of \<open>compile\<close>, the path of the built HTML file, from the path of the
  source (\<open>uri.fsPath\<close>), the directory of \<open>conf.py\<close> and the build directory of Sphinx.
\<close>

definition htmlFileName :: "string \<Rightarrow> string" where
  "htmlFileName fsp =
     (let whole = fsp;
          ext = lastIndexOf whole CHR ''.''
      in substring whole 0 ext @ ''.html'')"

definition builtHtmlPath :: "string \<Rightarrow> string \<Rightarrow> string \<Rightarrow> string \<Rightarrow> string" where
  "builtHtmlPath wd confPyDir output fsp =
     (let whole = htmlFileName fsp;
          source = dirname whole;
          sourceRelative = relative wd confPyDir source;
          outputRelative = relative wd confPyDir output
      in join [confPyDir, outputRelative, sourceRelative, basename whole])"

text \<open>
  \<open>await this.status.reset()\<close>; reading a method of null throws. The run gives the
  surroundings in which the engine goes on when the await returns.
\<close>

definition status_reset :: "env \<Rightarrow> env run" where
  "status_reset env =
     (case status env of
        None \<Rightarrow> throw (typeError env ''reset'')
      | Some st \<Rightarrow>
          thenDo (emit StatusReset) (\<lambda>_.
            (case reset st (worldOf env) of
               Inl e \<Rightarrow> throw e
             | Inr w \<Rightarrow> ret (inWorld env w))))"

definition quoted :: "string \<Rightarrow> string" where
  "quoted s = [CHR 0x22] @ s @ [CHR 0x22]"

text \<open>
  In the Sphinx branch, \<open>env'\<close> stands for the surroundings after the check of \<open>conf.py\<close>:
  those after the await of the reset when the file is missing, \<open>env\<close> itself otherwise.
  The gate, the resolution of the path and \<open>previewPage\<close> read \<open>env'\<close>.
\<close>

definition compile :: "env \<Rightarrow> string \<Rightarrow> uri \<Rightarrow> string \<Rightarrow> bool \<Rightarrow> webview \<Rightarrow> string run" where
  \<open>compile env fname u confPyDir fixLinksFlag webView =
     thenDo (logger_log (''[preview] Compiling file: '' @ fname)) (\<lambda>_.
     if confPyDir = [] \<or> getPreviewName env = ''docutils'' then
       thenDo (if getPreviewName env = ''docutils''
               then logger_log ''[preview] Forced to use docutils due to setting "preview.name".''
               else ret ()) (\<lambda>_.
       let writer = getDocutilsWriter env u;
           writerPart = getDocutilsWriterPart env u;
           args = [quoted (join [module_dirname env, ''..'', ''..'', ''python-scripts'', ''preview.py'']),
                   quoted fname, quoted writer, quoted writerPart]
       in thenDo (emit (PythonExec args)) (\<lambda>_. (python_exec env args, [])))
     else
       let input = confPyDir in
       thenDo (logger_log (''[preview] Sphinx conf.py directory: '' @ input)) (\<lambda>_.
       let confFile = join [input, ''conf.py''] in
       thenDo (emit (ExistsSync confFile)) (\<lambda>_.
       thenDo (if \<not> existsSync env confFile then
                 thenDo (status_reset env) (\<lambda>env'.
                 thenDo (logger_log ''[preview] conf.py not found. Refresh the settings.'') (\<lambda>_.
                 let input = confPyDir in
                 thenDo (logger_log (''[preview] Sphinx conf.py directory: '' @ input)) (\<lambda>_.
                 ret (input, env'))))
               else ret (input, env)) (\<lambda>(input, env').
       if esbonio_error env' then
         ret (showHelp ''<p>Esbonio detected build errors.</p>'' ''Not Available'')
       else if \<not> esbonio_ready env' then
         ret showWait
       else
         let output = esbonio_buildDir env' in
         thenDo (logger_log (''[preview] Sphinx html directory: '' @ output)) (\<lambda>_.
         previewPage env' (builtHtmlPath (cwd env') confPyDir output (fsPath u)) input
           fixLinksFlag webView)))))\<close>

subsection \<open>\<open>preview\<close>\<close>

text \<open>
  The body of \<open>preview\<close> is a \<open>try\<close> block. What it awaits inside the block, the promise of
  \<open>refreshConfig\<close>, and what throws there, reading \<open>confPyDirectory\<close> of a null \<open>config\<close>,
  reach the \<open>catch\<close> clause. The promise of \<open>compile\<close> is returned and not awaited: the block
  is left when it is returned, and the promise of \<open>preview\<close> settles as that of \<open>compile\<close>
  does, so a rejection of \<open>compile\<close> is the rejection of \<open>preview\<close>.
\<close>

text \<open>
  The part of the block before the call of \<open>compile\<close>: the directory read from
  \<open>this.status.config\<close>, and the surroundings in which \<open>compile\<close> is called, those after
  the await of \<open>refreshConfig\<close> when it was called.
\<close>

definition configuredDirectory :: "env \<Rightarrow> rst_status \<Rightarrow> text_document \<Rightarrow> (string \<times> env) run" where
  "configuredDirectory env st doc =
     thenDo (if config st = None then
               thenDo (emit (RefreshConfig (uri doc))) (\<lambda>_.
                 (case refreshConfig st (uri doc) (worldOf env) of
                    Inl e \<Rightarrow> throw e
                  | Inr (cfg, w) \<Rightarrow>
                      ret (cfg, (inWorld env w)\<lparr>status := Some (st\<lparr>config := cfg\<rparr>)\<rparr>)))
             else ret (config st, env)) (\<lambda>(cfg, env').
       (case cfg of
          None \<Rightarrow> throw (typeError env' ''confPyDirectory'')
        | Some c \<Rightarrow> ret (confPyDirectory c, env')))"

definition preview :: "env \<Rightarrow> text_document \<Rightarrow> webview \<Rightarrow> string run" where
  "preview env doc webView =
     (case status env of
        None \<Rightarrow> compile env (fileName doc) (uri doc) [] True webView
      | Some st \<Rightarrow>
          (case configuredDirectory env st doc of
             (Inl e, t) \<Rightarrow> (Inr (errorSnippet (errorToString e)), t)
           | (Inr (dir, env'), t) \<Rightarrow>
               (case compile env' (fileName doc) (uri doc) dir True webView of
                  (r, t') \<Rightarrow> (r, t @ t'))))"

subsection \<open>A sample project\<close>

text \<open>
  A project in \<open>/proj\<close> whose Sphinx build directory is \<open>/proj/_build/html\<close>: \<open>conf.py\<close>
  exists, the backend is ready, and the page built from \<open>/proj/docs/index.rst\<close> can be
  read. The concrete runs below are runs of the engine in this project, or in a variant
  of it.
\<close>

definition sampleWebview :: webview where
  "sampleWebview p = ''sandbox:/'' @ p"

definition sampleError :: js_error where
  "sampleError = \<lparr>name = ''Error'', message = ''spawn python ENOENT'', stack = None\<rparr>"

definition readError :: js_error where
  "readError =
     \<lparr>name = ''Error'',
      message = ''ENOENT: no such file or directory'',
      stack = Some ''Error: ENOENT: no such file or directory''\<rparr>"

definition sampleConfig :: rst_config where
  "sampleConfig = \<lparr>confPyDirectory = ''/proj''\<rparr>"

definition sampleStatus :: rst_status where
  "sampleStatus =
     \<lparr>config = Some sampleConfig,
      refreshConfig = (\<lambda>_ w. Inr (Some sampleConfig, w)),
      reset = (\<lambda>w. Inr w)\<rparr>"

definition sampleEnv :: env where
  \<open>sampleEnv =
     \<lparr>esbonio_error = False,
      esbonio_ready = True,
      esbonio_buildDir = ''/proj/_build/html'',
      python_exec = (\<lambda>_. Inr ''<p>docutils</p>''),
      getPreviewName = ''sphinx'',
      getDocutilsWriter = (\<lambda>_. ''html''),
      getDocutilsWriterPart = (\<lambda>_. ''html_body''),
      existsSync = (\<lambda>p. p = ''/proj/conf.py''),
      readFile = (\<lambda>p. if p = ''/proj/_build/html/docs/index.html''
                       then Inr ''<img src="a.png">'' else Inl readError),
      module_dirname = ''/ext/out/preview'',
      cwd = ''/'',
      typeError = (\<lambda>prop. \<lparr>name = ''TypeError'',
                              message = ''Cannot read properties of null (reading '' @ prop @ '')'',
                              stack = None\<rparr>),
      status = Some sampleStatus\<rparr>\<close>

definition sampleDoc :: text_document where
  "sampleDoc =
     \<lparr>fileName = ''/proj/docs/index.rst'', uri = \<lparr>fsPath = ''/proj/docs/index.rst''\<rparr>\<rparr>"

text \<open>The engine without a status bar, and a Python runner that cannot be started.\<close>

definition failingPythonEnv :: env where
  "failingPythonEnv = sampleEnv\<lparr>status := None, python_exec := (\<lambda>_. Inl sampleError)\<rparr>"

text \<open>Variants of the sample project.\<close>

definition busyEnv :: env where
  "busyEnv = sampleEnv\<lparr>esbonio_ready := False\<rparr>"

definition busyMissingConfEnv :: env where
  "busyMissingConfEnv = busyEnv\<lparr>existsSync := (\<lambda>_. False)\<rparr>"

definition buildErrorEnv :: env where
  "buildErrorEnv = sampleEnv\<lparr>esbonio_error := True\<rparr>"

definition noConfEnv :: env where
  "noConfEnv = sampleEnv\<lparr>existsSync := (\<lambda>_. False)\<rparr>"

definition resetFailsEnv :: env where
  "resetFailsEnv =
     sampleEnv\<lparr>status := Some (sampleStatus\<lparr>reset := (\<lambda>_. Inl sampleError)\<rparr>)\<rparr>"

definition missingConfEnv :: env where
  "missingConfEnv = resetFailsEnv\<lparr>existsSync := (\<lambda>_. False)\<rparr>"

definition buildErrorMissingConfEnv :: env where
  "buildErrorMissingConfEnv = missingConfEnv\<lparr>esbonio_error := True\<rparr>"

text \<open>A status bar whose reset resolves while the backend runs into a build error.\<close>

definition resetBreaksBuildEnv :: env where
  "resetBreaksBuildEnv =
     sampleEnv\<lparr>status := Some (sampleStatus\<lparr>reset := (\<lambda>w. Inr (w\<lparr>esbonio_error := True\<rparr>))\<rparr>)\<rparr>"

definition resetBreaksBuildNoConfEnv :: env where
  "resetBreaksBuildNoConfEnv = resetBreaksBuildEnv\<lparr>existsSync := (\<lambda>_. False)\<rparr>"

subsection \<open>Notions used to state the properties\<close>

text \<open>
  The check of \<open>conf.py\<close> at the head of the Sphinx branch of \<open>compile\<close> completes when the
  file exists, or when the reset of the status bar that its absence triggers resolves.
  \<open>afterConfCheck\<close> gives the surroundings in which the gate is then reached: those of the
  request when the file exists, those in which the reset resolves otherwise.
\<close>

definition afterConfCheck :: "env \<Rightarrow> string \<Rightarrow> env option" where
  "afterConfCheck env confPyDir =
     (if existsSync env (join [confPyDir, ''conf.py'']) then Some env
      else (case status env of
              None \<Rightarrow> None
            | Some st \<Rightarrow>
                (case reset st (worldOf env) of
                   Inl e \<Rightarrow> None
                 | Inr w \<Rightarrow> Some (inWorld env w))))"

text \<open>
  An absolute path in normal form: a slash before each of its segments, none of which is
  empty, \<open>.\<close> or \<open>..\<close> or holds a slash.
\<close>

definition properSegment :: "string \<Rightarrow> bool" where
  "properSegment s = (s \<noteq> [] \<and> CHR ''/'' \<notin> set s \<and> s \<noteq> ''.'' \<and> s \<noteq> ''..'')"

definition absolutePath :: "string list \<Rightarrow> string" where
  "absolutePath segs = CHR ''/'' # joinWith ''/'' segs"

text \<open>
  Two readings of "the document has a \<open>src\<close> or \<open>href\<close> attribute". In the first, the
  text \<open>src=\<close> or \<open>href=\<close> occurs somewhere in the document, in any case. In the second,
  that of HTML, an attribute has the name \<open>src\<close> or \<open>href\<close>: the text \<open>src=\<close> or \<open>href=\<close>
  occurs where a name starts, at the head of the document or after a character that no
  attribute name holds (white space, a quote, \<open>>\<close>, \<open>/\<close> or \<open>=\<close>). So \<open>data-src\<close> and
  \<open>xlink:href\<close> count in the first reading and not in the second.
\<close>

definition startsAttribute :: "string \<Rightarrow> bool" where
  "startsAttribute s = (toLowerCase (take 4 s) = ''src='' \<or> toLowerCase (take 5 s) = ''href='')"

definition mentionsSrcOrHref :: "string \<Rightarrow> bool" where
  "mentionsSrcOrHref document = list_ex startsAttribute (suffixes document)"

definition nameChar :: "char \<Rightarrow> bool" where
  "nameChar c =
     (c \<notin> set [CHR '' '', CHR 0x09, CHR 0x0A, CHR 0x0C, CHR 0x0D, CHR 0x22, CHR 0x27,
                  CHR ''>'', CHR ''/'', CHR ''=''])"

fun namedFrom :: "bool \<Rightarrow> string \<Rightarrow> bool" where
  "namedFrom atNameStart [] = False"
| "namedFrom atNameStart (c # cs) =
     ((atNameStart \<and> startsAttribute (c # cs)) \<or> namedFrom (\<not> nameChar c) cs)"

definition hasSrcOrHrefAttribute :: "string \<Rightarrow> bool" where
  "hasSrcOrHrefAttribute document = namedFrom True document"

text \<open>The number of occurrences of a pattern in a text, and the page a run returns.\<close>

fun isPrefixOf :: "string \<Rightarrow> string \<Rightarrow> bool" where
  "isPrefixOf [] s = True"
| "isPrefixOf (p # ps) [] = False"
| "isPrefixOf (p # ps) (c # cs) = (p = c \<and> isPrefixOf ps cs)"

fun countFrom :: "string \<Rightarrow> string \<Rightarrow> nat \<Rightarrow> nat" where
  "countFrom pat [] n = n"
| "countFrom pat (c # cs) n = countFrom pat cs (if isPrefixOf pat (c # cs) then Suc n else n)"

definition countOccurrences :: "string \<Rightarrow> string \<Rightarrow> nat" where
  "countOccurrences pat s = countFrom pat s 0"

definition pageOf :: "string run \<Rightarrow> string" where
  "pageOf r = (case fst r of Inr page \<Rightarrow> page | Inl _ \<Rightarrow> [])"

section \<open>Properties\<close>

lemmas run_defs = thenDo_def ret_def throw_def emit_def logger_log_def

subsection \<open>Runs of \<open>previewPage\<close> and \<open>compile\<close>\<close>

lemma previewPage_fs:
  "filter isFsAccess (snd (previewPage env htmlPath input fl wv)) = [ReadFile htmlPath]"
  by (simp add: previewPage_def run_defs isFsAccess_def split: sum.splits)

lemma previewPage_readFile:
  "readFile env1 = readFile env2 \<Longrightarrow>
     previewPage env1 htmlPath input fl wv = previewPage env2 htmlPath input fl wv"
  by (simp add: previewPage_def)

lemma inWorld_worldOf: "inWorld env (worldOf env) = env"
  by (simp add: inWorld_def worldOf_def)

lemma inWorld_reads:
  "esbonio_error (inWorld env w) = esbonio_error w"
  "esbonio_ready (inWorld env w) = esbonio_ready w"
  "esbonio_buildDir (inWorld env w) = esbonio_buildDir w"
  "readFile (inWorld env w) = readFile w"
  "cwd (inWorld env w) = cwd w"
  by (simp_all add: inWorld_def)

lemma status_reset_completes:
  assumes "status env = Some st" "reset st (worldOf env) = Inr w"
  shows "status_reset env = (Inr (inWorld env w), [StatusReset])"
  using assms by (simp add: status_reset_def run_defs)

lemma compile_project:
  assumes "confPyDir \<noteq> []" "getPreviewName env \<noteq> ''docutils''"
    and "afterConfCheck env confPyDir = Some env'"
  shows "fst (compile env fname u confPyDir fl wv) =
     (if esbonio_error env' then
        Inr (showHelp ''<p>Esbonio detected build errors.</p>'' ''Not Available'')
      else if \<not> esbonio_ready env' then Inr showWait
      else fst (previewPage env'
                 (builtHtmlPath (cwd env') confPyDir (esbonio_buildDir env') (fsPath u))
                 confPyDir fl wv))"
   and "filter isFsAccess (snd (compile env fname u confPyDir fl wv)) =
     ExistsSync (join [confPyDir, ''conf.py'']) #
     (if esbonio_error env' \<or> \<not> esbonio_ready env' then []
      else [ReadFile (builtHtmlPath (cwd env') confPyDir (esbonio_buildDir env') (fsPath u))])"
proof -
  let ?p = "builtHtmlPath (cwd env') confPyDir (esbonio_buildDir env') (fsPath u)"
  note fs = previewPage_fs [of env' ?p confPyDir fl wv]
  show "fst (compile env fname u confPyDir fl wv) =
     (if esbonio_error env' then
        Inr (showHelp ''<p>Esbonio detected build errors.</p>'' ''Not Available'')
      else if \<not> esbonio_ready env' then Inr showWait
      else fst (previewPage env' ?p confPyDir fl wv))"
  proof (cases "existsSync env (join [confPyDir, ''conf.py''])")
    case True
    with assms(3) have "env' = env" by (simp add: afterConfCheck_def)
    with True assms(1,2) show ?thesis
      by (simp add: compile_def run_defs case_prod_unfold Let_def)
  next
    case False
    with assms(3) obtain st w where "status env = Some st" "reset st (worldOf env) = Inr w"
      and "env' = inWorld env w"
      by (auto simp: afterConfCheck_def split: option.splits sum.splits)
    with status_reset_completes [of env st w] False assms(1,2) show ?thesis
      by (simp add: compile_def run_defs case_prod_unfold Let_def)
  qed
  show "filter isFsAccess (snd (compile env fname u confPyDir fl wv)) =
     ExistsSync (join [confPyDir, ''conf.py'']) #
     (if esbonio_error env' \<or> \<not> esbonio_ready env' then [] else [ReadFile ?p])"
  proof (cases "existsSync env (join [confPyDir, ''conf.py''])")
    case True
    with assms(3) have "env' = env" by (simp add: afterConfCheck_def)
    with True assms(1,2) fs show ?thesis
      by (simp add: compile_def run_defs case_prod_unfold Let_def isFsAccess_def)
  next
    case False
    with assms(3) obtain st w where "status env = Some st" "reset st (worldOf env) = Inr w"
      and "env' = inWorld env w"
      by (auto simp: afterConfCheck_def split: option.splits sum.splits)
    with status_reset_completes [of env st w] False assms(1,2) fs show ?thesis
      by (simp add: compile_def run_defs case_prod_unfold Let_def isFsAccess_def)
  qed
qed

subsection \<open>The \<open>path\<close> module on absolute paths in normal form\<close>

lemma splitSlash_nonempty: "splitSlash s \<noteq> []"
  by (induction s) (auto split: list.splits)

lemma splitSlash_noslash: "CHR ''/'' \<notin> set s \<Longrightarrow> splitSlash s = [s]"
  by (induction s) (auto simp: isSlash_def)

lemma splitSlash_append:
  "CHR ''/'' \<notin> set s \<Longrightarrow> splitSlash (s @ CHR ''/'' # r) = s # splitSlash r"
  by (induction s) (auto simp: isSlash_def split: list.splits)

lemma splitSlash_joinWith:
  "segs \<noteq> [] \<Longrightarrow> \<forall>s\<in>set segs. CHR ''/'' \<notin> set s \<Longrightarrow>
     splitSlash (joinWith ''/'' segs @ r) = butlast segs @ splitSlash (last segs @ r)"
proof (induction "''/''" segs rule: joinWith.induct)
  case 1
  then show ?case by simp
next
  case (2 x)
  then show ?case by simp
next
  case (3 x y ys)
  then show ?case using splitSlash_append [of x] by simp
qed

lemma foldl_normStep:
  "\<forall>s\<in>set segs. properSegment s \<Longrightarrow> foldl (normStep a) res segs = res @ segs"
  by (induction segs arbitrary: res) (auto simp: normStep_def properSegment_def)

lemma joinWith_snoc: "xs \<noteq> [] \<Longrightarrow> joinWith sep (xs @ [y]) = joinWith sep xs @ sep @ y"
  by (induction sep xs rule: joinWith.induct) auto

lemma joinWith_append:
  "xs \<noteq> [] \<Longrightarrow> ys \<noteq> [] \<Longrightarrow> joinWith sep (xs @ ys) = joinWith sep xs @ sep @ joinWith sep ys"
  by (induction sep xs rule: joinWith.induct) (auto simp: neq_Nil_conv)

lemma joinWith_nonempty:
  "xs \<noteq> [] \<Longrightarrow> \<forall>s\<in>set xs. s \<noteq> [] \<Longrightarrow> joinWith sep xs \<noteq> []"
  by (induction sep xs rule: joinWith.induct) auto

lemma normalizeString_absolutePath:
  assumes "segs \<noteq> []" "\<forall>s\<in>set segs. properSegment s"
  shows "normalizeString (absolutePath segs) False = joinWith ''/'' segs"
    and "normalizeString (absolutePath segs @ ''/'') False = joinWith ''/'' segs"
proof -
  have ns: "\<forall>s\<in>set segs. CHR ''/'' \<notin> set s" using assms(2) by (simp add: properSegment_def)
  have bl: "butlast segs @ [last segs] = segs" using assms(1) by simp
  have "splitSlash (joinWith ''/'' segs @ []) = butlast segs @ splitSlash (last segs @ [])"
    by (rule splitSlash_joinWith [OF assms(1) ns])
  moreover have "splitSlash (last segs) = [last segs]"
    using ns assms(1) by (simp add: splitSlash_noslash)
  ultimately have s1: "splitSlash (joinWith ''/'' segs) = segs" using bl by simp
  have "splitSlash (last segs @ ''/'') = [last segs, []]"
    using splitSlash_append [of "last segs" "[]"] ns assms(1) by simp
  then have s2: "splitSlash (joinWith ''/'' segs @ ''/'') = segs @ [[]]"
    using splitSlash_joinWith [OF assms(1) ns, of "''/''"] bl
    by (metis append_Cons append_Nil append_assoc)
  have f: "foldl (normStep False) [] segs = segs"
    using foldl_normStep [OF assms(2), of False "[]"] by simp
  have e: "normStep False [] [] = []" "normStep False segs [] = segs"
    by (simp_all add: normStep_def)
  show "normalizeString (absolutePath segs) False = joinWith ''/'' segs"
    by (simp add: normalizeString_def absolutePath_def isSlash_def s1 e f)
  show "normalizeString (absolutePath segs @ ''/'') False = joinWith ''/'' segs"
    by (simp add: normalizeString_def absolutePath_def isSlash_def s2 e f)
qed

lemma absolutePath_facts:
  assumes "segs \<noteq> []" "\<forall>s\<in>set segs. properSegment s"
  shows "joinWith ''/'' segs \<noteq> []" and "isAbsolute (absolutePath segs)"
    and "\<not> isSlash (last (absolutePath segs))"
proof -
  show ne: "joinWith ''/'' segs \<noteq> []"
    using assms by (intro joinWith_nonempty) (auto simp: properSegment_def)
  show "isAbsolute (absolutePath segs)"
    by (simp add: isAbsolute_def absolutePath_def isSlash_def)
  have "last (joinWith ''/'' segs) = last (last segs)"
    using assms
  proof (induction "''/''" segs rule: joinWith.induct)
    case (3 x y ys)
    then have "joinWith ''/'' (y # ys) \<noteq> []"
      by (intro joinWith_nonempty) (auto simp: properSegment_def)
    with 3 show ?case by simp
  qed simp_all
  moreover have "last (last segs) \<in> set (last segs)" "CHR ''/'' \<notin> set (last segs)"
    using assms by (auto simp: properSegment_def)
  ultimately show "\<not> isSlash (last (absolutePath segs))"
    using ne by (auto simp: absolutePath_def isSlash_def)
qed

lemma resolve_absolutePath:
  assumes "segs \<noteq> []" "\<forall>s\<in>set segs. properSegment s"
  shows "resolve wd (absolutePath segs) = absolutePath segs"
  using normalizeString_absolutePath(2) [OF assms] absolutePath_facts(2) [OF assms]
  by (simp add: resolve_def Let_def) (simp add: absolutePath_def)

lemma normalize_absolutePath:
  assumes "segs \<noteq> []" "\<forall>s\<in>set segs. properSegment s"
  shows "normalize (absolutePath segs) = absolutePath segs"
  using normalizeString_absolutePath(1) [OF assms] absolutePath_facts [OF assms]
  by (simp add: normalize_def Let_def) (simp add: absolutePath_def)

lemma absolutePath_append:
  "xs \<noteq> [] \<Longrightarrow> ys \<noteq> [] \<Longrightarrow>
     absolutePath (xs @ ys) = absolutePath xs @ ''/'' @ joinWith ''/'' ys"
  by (simp add: absolutePath_def joinWith_append)

lemma dropWhile_segment: "\<forall>c\<in>set s. P c \<Longrightarrow> \<not> P x \<Longrightarrow> dropWhile P (s @ x # r) = x # r"
  by (induction s) auto

lemma takeWhile_segment: "\<forall>c\<in>set s. P c \<Longrightarrow> \<not> P x \<Longrightarrow> takeWhile P (s @ x # r) = s"
  by (induction s) auto

lemma dirname_absolutePath:
  assumes "xs \<noteq> []" "\<forall>s\<in>set xs. properSegment s" "properSegment y"
  shows "dirname (absolutePath (xs @ [y])) = absolutePath xs"
proof -
  have ne: "joinWith ''/'' xs \<noteq> []" by (rule absolutePath_facts(1) [OF assms(1,2)])
  have y: "y \<noteq> []" "\<forall>c\<in>set (rev y). \<not> isSlash c"
    using assms(3) by (auto simp: properSegment_def isSlash_def)
  then have hd: "\<not> isSlash (hd (rev y))" "rev y \<noteq> []"
    by (metis hd_in_set rev_is_Nil_conv, simp)
  have "dropWhile isSlash (rev y @ CHR ''/'' # rev (joinWith ''/'' xs))
        = rev y @ CHR ''/'' # rev (joinWith ''/'' xs)"
    using hd by (cases "rev y") auto
  moreover have "dropWhile (\<lambda>x. \<not> isSlash x) (rev y @ CHR ''/'' # rev (joinWith ''/'' xs))
        = CHR ''/'' # rev (joinWith ''/'' xs)"
    using y(2) by (intro dropWhile_segment) (auto simp: isSlash_def)
  ultimately show ?thesis
    using ne by (simp add: dirname_def absolutePath_def joinWith_snoc [OF assms(1)] isSlash_def)
qed

lemma basename_absolutePath:
  assumes "xs \<noteq> []" "properSegment y"
  shows "basename (absolutePath (xs @ [y])) = y"
proof -
  have y: "y \<noteq> []" "\<forall>c\<in>set (rev y). \<not> isSlash c"
    using assms(2) by (auto simp: properSegment_def isSlash_def)
  then have hd: "\<not> isSlash (hd (rev y))" "rev y \<noteq> []"
    by (metis hd_in_set rev_is_Nil_conv, simp)
  have "dropWhile isSlash (rev y @ CHR ''/'' # rev (joinWith ''/'' xs) @ ''/'')
        = rev y @ CHR ''/'' # rev (joinWith ''/'' xs) @ ''/''"
    using hd by (cases "rev y") auto
  moreover have "takeWhile (\<lambda>x. \<not> isSlash x) (rev y @ CHR ''/'' # rev (joinWith ''/'' xs) @ ''/'')
        = rev y"
    using y(2) by (intro takeWhile_segment) (auto simp: isSlash_def)
  ultimately show ?thesis
    by (simp add: basename_def absolutePath_def joinWith_snoc [OF assms(1)])
qed

lemma commonLen_append: "commonLen f (f @ z) = length f"
  by (induction f) auto

lemma relative_absolutePath:
  assumes "xs \<noteq> []" "\<forall>s\<in>set xs. properSegment s" "ys \<noteq> []" "\<forall>s\<in>set ys. properSegment s"
  shows "relative wd (absolutePath xs) (absolutePath (xs @ ys)) = joinWith ''/'' ys"
proof -
  let ?f = "joinWith ''/'' xs"
  have xy: "xs @ ys \<noteq> []" "\<forall>s\<in>set (xs @ ys). properSegment s" using assms by auto
  have r1: "resolve wd (absolutePath xs) = absolutePath xs"
    by (rule resolve_absolutePath [OF assms(1,2)])
  have r2: "resolve wd (absolutePath (xs @ ys)) = absolutePath (xs @ ys)"
    by (rule resolve_absolutePath [OF xy])
  have ap: "absolutePath (xs @ ys) = absolutePath xs @ ''/'' @ joinWith ''/'' ys"
    by (rule absolutePath_append [OF assms(1,3)])
  have ne: "absolutePath xs \<noteq> absolutePath (xs @ ys)" by (simp add: ap)
  have t: "drop 1 (absolutePath (xs @ ys)) = ?f @ CHR ''/'' # joinWith ''/'' ys"
    by (simp add: ap) (simp add: absolutePath_def)
  have f: "drop 1 (absolutePath xs) = ?f" by (simp add: absolutePath_def)
  show ?thesis
    unfolding relative_def r1 r2 Let_def t f
    using ne by (simp add: commonLen_append isSlash_def nth_append)
qed

lemma lastIndexOf_ge: "- 1 \<le> lastIndexOf s c"
  by (induction s) (auto simp: Let_def)

lemma lastIndexOf_append:
  "lastIndexOf (xs @ ys) c =
     (if 0 \<le> lastIndexOf ys c then int (length xs) + lastIndexOf ys c else lastIndexOf xs c)"
  using lastIndexOf_ge [of ys c] by (induction xs) (auto simp: Let_def)

lemma htmlFileName_index:
  "htmlFileName (dir @ ''/docs/index.rst'') = dir @ ''/docs/index.html''"
proof -
  have "lastIndexOf ''/docs/index.rst'' CHR ''.'' = 11" by code_simp
  then have "lastIndexOf (dir @ ''/docs/index.rst'') CHR ''.'' = int (length dir) + 11"
    by (simp only: lastIndexOf_append) simp
  then show ?thesis
    by (simp add: htmlFileName_def substring_def Let_def nat_add_distrib)
qed

subsection \<open>The scan of \<open>fixLinks\<close>\<close>





lemma replaced_simps:
  "replaced f (Plain c) = [c]" "replaced f (Match p1 p2 p3) = f (p1 @ p2 @ p3) p1 p2 p3"
  by (simp_all add: replaced_def)


lemma fixLinks_pieces:
  "fixLinks document documentPath webView =
     concat (map (replaced (fixLinksReplacer documentPath webView)) (pieces document))"
  by (simp add: fixLinks_def stringReplace_def)



lemma matchAt_startsAttribute:
  assumes "matchAt s = Some m"
  shows "startsAttribute s"
proof -
  from assms obtain n e q r where n: "attrName s = Some n" and d: "drop n s = e # q # r"
    and e: "e = CHR ''=''"
    by (auto simp: matchAt_def split: option.splits list.splits if_splits)
  from d have lt: "n < length s" by (cases "n < length s") auto
  then have "s ! n = hd (drop n s)" by (simp add: hd_drop_conv_nth)
  with d e have "s ! n = CHR ''=''" by simp
  with lt have t: "take (Suc n) s = take n s @ ''=''"
    by (simp add: take_Suc_conv_app_nth)
  have l: "toLowerCase (xs @ ''='') = toLowerCase xs @ ''=''" for xs
    by (simp add: toLowerCase_def lowerChar_def)
  from n consider "n = 3" "toLowerCase (take 3 s) = ''src''"
    | "n = 4" "toLowerCase (take 4 s) = ''href''"
    by (auto simp: attrName_def split: if_splits)
  then show ?thesis
  proof cases
    case 1
    with t have "take 4 s = take 3 s @ ''=''" by simp
    with 1 l show ?thesis by (simp add: startsAttribute_def)
  next
    case 2
    with t have "take 5 s = take 4 s @ ''=''" by simp
    with 2 l show ?thesis by (simp add: startsAttribute_def)
  qed
qed

lemma mentions_Cons: "mentionsSrcOrHref cs \<Longrightarrow> mentionsSrcOrHref (c # cs)"
  by (auto simp: mentionsSrcOrHref_def list_ex_iff suffix_Cons)

lemma mentions_self: "startsAttribute s \<Longrightarrow> mentionsSrcOrHref s"
  by (auto simp: mentionsSrcOrHref_def list_ex_iff)

lemma pieces_plain: "\<not> mentionsSrcOrHref document \<Longrightarrow> pieces document = map Plain document"
proof (induction document)
  case Nil
  then show ?case by simp
next
  case (Cons c cs)
  then have "matchAt (c # cs) = None"
    using matchAt_startsAttribute mentions_self by (cases "matchAt (c # cs)") blast+
  moreover have "pieces cs = map Plain cs"
    using Cons mentions_Cons by blast
  ultimately show ?case by simp
qed

subsection \<open>The parts of the status pages\<close>

lemma sublist_in_tail: "sublist x ys \<Longrightarrow> sublist x (zs @ ys)"
  by (metis sublist_append_leftI sublist_order.order_trans)

lemma sublist_in_head: "sublist x ys \<Longrightarrow> sublist x (ys @ zs)"
  by (metis sublist_append_rightI sublist_order.order_trans)

lemma showHelp_parts:
  "sublist description (showHelp description error)"
  "sublist error (showHelp description error)"
  unfolding showHelp_def
  by (fast intro: sublist_in_tail sublist_append_rightI)+

lemma cause_items:
  \<open>sublist ''<li>A wrong "conf.py" file is selected.</li>''
     ''                      <li>A wrong "conf.py" file is selected.</li>''\<close>
  \<open>sublist ''<li>Wrong value is set on "esbonio.sphinx.buildDir".</li>''
     ''                      <li>Wrong value is set on "esbonio.sphinx.buildDir".</li>''\<close>
  by code_simp+

lemma cannotReadDescription_parts:
  \<open>sublist htmlPath (cannotReadDescription htmlPath)\<close>
  \<open>sublist ''<li>A wrong "conf.py" file is selected.</li>'' (cannotReadDescription htmlPath)\<close>
  \<open>sublist ''<li>Wrong value is set on "esbonio.sphinx.buildDir".</li>'' (cannotReadDescription htmlPath)\<close>
  unfolding cannotReadDescription_def
  by (fast intro: sublist_in_tail sublist_in_head sublist_append_rightI cause_items)+

section \<open>The claims\<close>

subsection \<open>C1: failures that reach the caller of \<open>preview\<close>\<close>

text \<open>
  What the \<open>catch\<close> clause of \<open>preview\<close> does absorb: when \<open>config\<close> is null and
  \<open>refreshConfig\<close> rejects, the caller gets the error snippet.
\<close>

lemma preview_refreshConfig_rejection_absorbed:
  assumes "status env = Some st" "config st = None"
    and "refreshConfig st (uri doc) (worldOf env) = Inl e"
  shows "fst (preview env doc webView) = Inr (errorSnippet (errorToString e))"
  using assms by (simp add: preview_def configuredDirectory_def run_defs)

text \<open>
  C1. The claim is that no failure leaves \<open>preview\<close> as a rejection, in either mode: the
  caller always gets HTML. The code does otherwise in both modes. In the first run the
  engine has no status bar, \<open>preview\<close> returns the promise of \<open>compile\<close> for the
  single-file renderer, and the Python runner rejects. In the second run \<open>conf.py\<close> is
  missing from the project and the reset of the status bar rejects. In both, the promise
  of \<open>preview\<close> is rejected with that error, and no HTML is returned.
\<close>

theorem preview_rejection_escapes:
  "fst (preview failingPythonEnv sampleDoc sampleWebview) = Inl sampleError \<and>
   fst (preview missingConfEnv sampleDoc sampleWebview) = Inl sampleError"
  by code_simp

subsection \<open>C2: the busy backend\<close>

text \<open>
  C2, as amended. In the Sphinx branch, when the check of \<open>conf.py\<close> completes and the
  backend, as the gate reads it, is neither ready nor in error, \<open>compile\<close> returns the
  wait page, and its only access to the file system is the existence check of \<open>conf.py\<close>
  in the project directory: no file is read.
\<close>

theorem busy_backend_wait_page:
  assumes "confPyDir \<noteq> []" and "getPreviewName env \<noteq> ''docutils''"
    and "afterConfCheck env confPyDir = Some env'"
    and "\<not> esbonio_error env'" and "\<not> esbonio_ready env'"
  shows "fst (compile env fname u confPyDir fl wv) = Inr showWait \<and>
         filter isFsAccess (snd (compile env fname u confPyDir fl wv))
           = [ExistsSync (join [confPyDir, ''conf.py''])]"
  using compile_project [OF assms(1-3), of fname u fl wv] assms(4,5) by simp

text \<open>
  The claim as stated, no access to the file system at all, fails in the sample project
  with a busy backend: the wait page is returned after the existence of
  \<open>/proj/conf.py\<close> has been checked.
\<close>

theorem busy_backend_fs_access_counterexample:
  "fst (compile busyEnv ''/proj/docs/index.rst'' (uri sampleDoc) ''/proj'' True sampleWebview)
     = Inr showWait \<and>
   filter isFsAccess
     (snd (compile busyEnv ''/proj/docs/index.rst'' (uri sampleDoc) ''/proj'' True sampleWebview))
     = [ExistsSync ''/proj/conf.py''] \<and>
   filter isFsAccess
     (snd (compile busyEnv ''/proj/docs/index.rst'' (uri sampleDoc) ''/proj'' True sampleWebview))
     \<noteq> []"
  by code_simp

theorem busy_backend_wait_page_witness:
  "fst (compile busyMissingConfEnv ''/proj/docs/index.rst'' (uri sampleDoc) ''/proj'' True
          sampleWebview) = Inr showWait \<and>
   filter isFsAccess
     (snd (compile busyMissingConfEnv ''/proj/docs/index.rst'' (uri sampleDoc) ''/proj'' True
             sampleWebview))
     = [ExistsSync ''/proj/conf.py'']"
proof -
  have j: "join [''/proj'', ''conf.py''] = ''/proj/conf.py''" by code_simp
  have h1: "''/proj'' \<noteq> []" by simp
  have h2: "getPreviewName busyMissingConfEnv \<noteq> ''docutils''" by code_simp
  have "afterConfCheck busyMissingConfEnv ''/proj''
        = Some (inWorld busyMissingConfEnv (worldOf busyMissingConfEnv))"
    by (simp add: afterConfCheck_def j busyMissingConfEnv_def busyEnv_def sampleEnv_def
        sampleStatus_def)
  then have h3: "afterConfCheck busyMissingConfEnv ''/proj'' = Some busyMissingConfEnv"
    by (simp only: inWorld_worldOf)
  have h4: "\<not> esbonio_error busyMissingConfEnv" by code_simp
  have h5: "\<not> esbonio_ready busyMissingConfEnv" by code_simp
  show ?thesis
    using busy_backend_wait_page [OF h1 h2 h3 h4 h5, of "''/proj/docs/index.rst''"
        "uri sampleDoc" True sampleWebview]
    unfolding j .
qed

subsection \<open>C3: a source file without a dot in its path\<close>

text \<open>
  C3. The claim is that a source named \<open>README\<close> resolves to \<open>README.html\<close> in the mirrored
  output location. The path \<open>/proj/docs/README\<close> holds no dot, \<open>lastIndexOf\<close> is -1,
  \<open>substring(0, -1)\<close> is empty: the file name computed is \<open>.html\<close>, and the path of the page
  is \<open>/proj/_build/.html\<close>, not \<open>/proj/_build/html/docs/README.html\<close>.
\<close>

theorem builtHtmlPath_without_dot:
  "htmlFileName ''/proj/docs/README'' = ''.html'' \<and>
   builtHtmlPath ''/'' ''/proj'' ''/proj/_build/html'' ''/proj/docs/README'' = ''/proj/_build/.html'' \<and>
   builtHtmlPath ''/'' ''/proj'' ''/proj/_build/html'' ''/proj/docs/README''
     \<noteq> ''/proj/_build/html/docs/README.html''"
  by code_simp

subsection \<open>C4: the page for an unreadable file\<close>

text \<open>
  C4, as amended. When the HTML file cannot be read, \<open>previewPage\<close> resolves with a page
  that holds the path of the file, the two causes of the list (a wrong \<open>conf.py\<close>, a wrong
  value of \<open>esbonio.sphinx.buildDir\<close>), and the name, the message and the stack of the
  error, joined by newlines.
\<close>

theorem previewPage_unreadable:
  assumes "readFile env htmlPath = Inl err"
  shows \<open>\<exists>page. fst (previewPage env htmlPath input fl wv) = Inr page \<and>
           sublist htmlPath page \<and>
           sublist ''<li>A wrong "conf.py" file is selected.</li>'' page \<and>
           sublist ''<li>Wrong value is set on "esbonio.sphinx.buildDir".</li>'' page \<and>
           sublist (name err @ [CHR 0x0A] @ message err @ [CHR 0x0A] @ stackText err) page\<close>
proof -
  let ?d = "cannotReadDescription htmlPath"
  let ?e = "joinWith [CHR 0x0A] [name err, message err, stackText err]"
  have r: "fst (previewPage env htmlPath input fl wv) = Inr (showHelp ?d ?e)"
    using assms by (simp add: previewPage_def run_defs)
  have e: "?e = name err @ [CHR 0x0A] @ message err @ [CHR 0x0A] @ stackText err" by simp
  have d: "sublist x ?d \<Longrightarrow> sublist x (showHelp ?d ?e)" for x
    using showHelp_parts(1) [of ?d ?e] sublist_order.order_trans by blast
  show ?thesis
    using r d cannotReadDescription_parts [of htmlPath] showHelp_parts(2) [of ?e ?d]
    unfolding e by blast
qed

text \<open>
  The claim as stated asks for three causes: the page for a missing file in the sample
  project lists two.
\<close>

theorem previewPage_causes_counterexample:
  "countOccurrences ''<li>''
     (pageOf (previewPage sampleEnv ''/proj/_build/html/missing.html'' ''/proj'' True sampleWebview))
   = 2 \<and>
   countOccurrences ''<li>''
     (pageOf (previewPage sampleEnv ''/proj/_build/html/missing.html'' ''/proj'' True sampleWebview))
   \<noteq> 3"
  by code_simp

theorem previewPage_unreadable_witness:
  \<open>\<exists>page. fst (previewPage sampleEnv ''/proj/_build/html/missing.html'' ''/proj'' True sampleWebview)
             = Inr page \<and>
           sublist ''/proj/_build/html/missing.html'' page \<and>
           sublist ''<li>A wrong "conf.py" file is selected.</li>'' page \<and>
           sublist ''<li>Wrong value is set on "esbonio.sphinx.buildDir".</li>'' page \<and>
           sublist (''Error'' @ [CHR 0x0A] @ ''ENOENT: no such file or directory'' @ [CHR 0x0A]
                    @ ''Error: ENOENT: no such file or directory'') page\<close>
proof -
  have h: "readFile sampleEnv ''/proj/_build/html/missing.html'' = Inl readError"
    by (simp add: sampleEnv_def)
  show ?thesis
    using previewPage_unreadable [OF h, of "''/proj''" True sampleWebview]
    by (simp add: readError_def stackText_def)
qed

subsection \<open>C5: the readiness gate\<close>

text \<open>
  C5, as amended. In the Sphinx branch, when the check of \<open>conf.py\<close> completes, the gate
  has three outcomes, and the error flag is tested first. With \<open>error\<close> set, whatever
  \<open>ready\<close> is, the result is the page of build errors and no file is read. Otherwise,
  without \<open>ready\<close>, the result is the wait page and no file is read. Otherwise the path of
  the built page is computed and \<open>previewPage\<close> loads it. The flags are those the gate
  reads: the backend as it is after the check.
\<close>

theorem readiness_gate_outcomes:
  assumes "confPyDir \<noteq> []" and "getPreviewName env \<noteq> ''docutils''"
    and "afterConfCheck env confPyDir = Some env'"
  shows "(esbonio_error env' \<longrightarrow>
            fst (compile env fname u confPyDir fl wv)
              = Inr (showHelp ''<p>Esbonio detected build errors.</p>'' ''Not Available'') \<and>
            filter isFsAccess (snd (compile env fname u confPyDir fl wv))
              = [ExistsSync (join [confPyDir, ''conf.py''])]) \<and>
         (\<not> esbonio_error env' \<and> \<not> esbonio_ready env' \<longrightarrow>
            fst (compile env fname u confPyDir fl wv) = Inr showWait \<and>
            filter isFsAccess (snd (compile env fname u confPyDir fl wv))
              = [ExistsSync (join [confPyDir, ''conf.py''])]) \<and>
         (\<not> esbonio_error env' \<and> esbonio_ready env' \<longrightarrow>
            fst (compile env fname u confPyDir fl wv)
              = fst (previewPage env'
                       (builtHtmlPath (cwd env') confPyDir (esbonio_buildDir env') (fsPath u))
                       confPyDir fl wv) \<and>
            filter isFsAccess (snd (compile env fname u confPyDir fl wv))
              = [ExistsSync (join [confPyDir, ''conf.py'']),
                 ReadFile (builtHtmlPath (cwd env') confPyDir (esbonio_buildDir env') (fsPath u))])"
  using compile_project [OF assms, of fname u fl wv] by simp

text \<open>
  The claim as stated, for every request of the Sphinx branch, fails when the check does
  not complete. In the run below the backend reports an error, \<open>conf.py\<close> is missing and
  the reset of the status bar rejects: \<open>compile\<close> is rejected before the gate, and the
  result is not the page of build errors.
\<close>

theorem readiness_gate_not_reached_counterexample:
  "esbonio_error buildErrorMissingConfEnv \<and>
   fst (compile buildErrorMissingConfEnv ''/proj/docs/index.rst'' (uri sampleDoc) ''/proj'' True
          sampleWebview) = Inl sampleError \<and>
   fst (compile buildErrorMissingConfEnv ''/proj/docs/index.rst'' (uri sampleDoc) ''/proj'' True
          sampleWebview)
     \<noteq> Inr (showHelp ''<p>Esbonio detected build errors.</p>'' ''Not Available'')"
  by code_simp

theorem readiness_gate_outcomes_witness:
  "esbonio_error buildErrorEnv \<and> esbonio_ready buildErrorEnv \<and>
   fst (compile buildErrorEnv ''/proj/docs/index.rst'' (uri sampleDoc) ''/proj'' True sampleWebview)
     = Inr (showHelp ''<p>Esbonio detected build errors.</p>'' ''Not Available'') \<and>
   filter isFsAccess
     (snd (compile buildErrorEnv ''/proj/docs/index.rst'' (uri sampleDoc) ''/proj'' True
             sampleWebview))
     = [ExistsSync ''/proj/conf.py'']"
proof -
  have j: "join [''/proj'', ''conf.py''] = ''/proj/conf.py''" by code_simp
  have h1: "''/proj'' \<noteq> []" by simp
  have h2: "getPreviewName buildErrorEnv \<noteq> ''docutils''" by code_simp
  have h3: "afterConfCheck buildErrorEnv ''/proj'' = Some buildErrorEnv"
    by (simp add: afterConfCheck_def j buildErrorEnv_def sampleEnv_def)
  have e: "esbonio_error buildErrorEnv" by code_simp
  have r: "esbonio_ready buildErrorEnv" by code_simp
  show ?thesis
    using readiness_gate_outcomes [OF h1 h2 h3, of "''/proj/docs/index.rst''"
        "uri sampleDoc" True sampleWebview] e r
    unfolding j by blast
qed

subsection \<open>C6: the path of the built page\<close>

text \<open>
  C6. For a project directory \<open>configDir\<close> that is an absolute path in normal form, the
  build directory \<open>configDir/_build/html\<close> and the source \<open>configDir/docs/index.rst\<close>, the
  path of the built page is \<open>configDir/_build/html/docs/index.html\<close>, whatever the working
  directory of the process.
\<close>

theorem builtHtmlPath_mirrors_source_tree:
  assumes "segs \<noteq> []" and "\<forall>s\<in>set segs. properSegment s"
    and "configDir = absolutePath segs"
  shows "builtHtmlPath wd configDir (configDir @ ''/_build/html'') (configDir @ ''/docs/index.rst'')
         = configDir @ ''/_build/html/docs/index.html''"
proof -
  have p: "properSegment ''docs''" "properSegment ''index.html''"
    "properSegment ''_build''" "properSegment ''html''"
    by (simp_all add: properSegment_def)
  have whole: "htmlFileName (configDir @ ''/docs/index.rst'')
               = absolutePath ((segs @ [''docs'']) @ [''index.html''])"
    using assms(1,3) by (simp add: htmlFileName_index absolutePath_append)
  have d: "dirname (absolutePath ((segs @ [''docs'']) @ [''index.html''])) = absolutePath (segs @ [''docs''])"
    using assms(1,2) p by (intro dirname_absolutePath) auto
  have b: "basename (absolutePath ((segs @ [''docs'']) @ [''index.html''])) = ''index.html''"
    using assms(1) p by (intro basename_absolutePath) auto
  have sr: "relative wd configDir (absolutePath (segs @ [''docs''])) = ''docs''"
    using relative_absolutePath [OF assms(1,2), of "[''docs'']" wd] p assms(3) by simp
  have out: "configDir @ ''/_build/html'' = absolutePath (segs @ [''_build'', ''html''])"
    using assms(1,3) by (simp add: absolutePath_append)
  have orel: "relative wd configDir (absolutePath (segs @ [''_build'', ''html''])) = ''_build/html''"
    using relative_absolutePath [OF assms(1,2), of "[''_build'', ''html'']" wd] p assms(3) by simp
  have all: "\<forall>s\<in>set (segs @ [''_build'', ''html'', ''docs'', ''index.html'']). properSegment s"
    using assms(2) p by simp
  have ne: "configDir \<noteq> []" using assms(3) by (simp add: absolutePath_def)
  have "join [configDir, ''_build/html'', ''docs'', ''index.html'']
        = normalize (absolutePath (segs @ [''_build'', ''html'', ''docs'', ''index.html'']))"
    using ne assms(1,3) by (simp add: join_def absolutePath_append)
  also have "\<dots> = absolutePath (segs @ [''_build'', ''html'', ''docs'', ''index.html''])"
    using all assms(1) by (intro normalize_absolutePath) auto
  also have "\<dots> = configDir @ ''/_build/html/docs/index.html''"
    using assms(1,3) by (simp add: absolutePath_append)
  finally have j: "join [configDir, ''_build/html'', ''docs'', ''index.html'']
        = configDir @ ''/_build/html/docs/index.html''" .
  show ?thesis
    unfolding builtHtmlPath_def Let_def whole d b out orel sr j ..
qed

theorem builtHtmlPath_mirrors_source_tree_witness:
  "builtHtmlPath ''/home/u'' ''/srv/proj'' ''/srv/proj/_build/html'' ''/srv/proj/docs/index.rst''
     = ''/srv/proj/_build/html/docs/index.html''"
proof -
  have h1: "[''srv'', ''proj''] \<noteq> []" by simp
  have h2: "\<forall>s\<in>set [''srv'', ''proj'']. properSegment s" by (simp add: properSegment_def)
  have h3: "''/srv/proj'' = absolutePath [''srv'', ''proj'']" by (simp add: absolutePath_def)
  show ?thesis
    using builtHtmlPath_mirrors_source_tree [OF h1 h2 h3, of "''/home/u''"] by simp
qed

subsection \<open>C7: anchors and absolute links\<close>




subsection \<open>C8: query strings\<close>



subsection \<open>C9: documents without \<open>src\<close> or \<open>href\<close>\<close>

text \<open>
  C9, as amended. On a document in which the text \<open>src=\<close> or \<open>href=\<close> occurs nowhere, in
  any case and also not as the end of a longer attribute name, \<open>fixLinks\<close> is the
  identity.
\<close>

theorem fixLinks_identity_without_attributes:
  assumes "\<not> mentionsSrcOrHref document"
  shows "fixLinks document documentPath webView = document"
proof -
  have "concat (map (replaced (fixLinksReplacer documentPath webView)) (map Plain document))
        = document"
    by (induction document) (simp_all add: replaced_simps)
  then show ?thesis using pieces_plain [OF assms] by (simp add: fixLinks_pieces)
qed

text \<open>
  The claim as stated, for documents without an attribute named \<open>src\<close> or \<open>href\<close>, fails:
  the regular expression has no boundary before the name, and the value of \<open>data-src\<close> is
  rewritten.
\<close>

theorem fixLinks_data_src_counterexample:
  \<open>hasSrcOrHrefAttribute ''<img src="a.png">'' \<and>
   \<not> hasSrcOrHrefAttribute ''<img data-src="a.png">'' \<and>
   fixLinks ''<img data-src="a.png">'' ''/x/y.html'' sampleWebview
     = ''<img data-src="sandbox://x/a.png">'' \<and>
   fixLinks ''<img data-src="a.png">'' ''/x/y.html'' sampleWebview \<noteq> ''<img data-src="a.png">''\<close>
  by code_simp

theorem fixLinks_identity_without_attributes_witness:
  "fixLinks ''<p>Hello, source</p>'' ''/x/y.html'' sampleWebview = ''<p>Hello, source</p>''"
proof -
  have h: "\<not> mentionsSrcOrHref ''<p>Hello, source</p>''" by code_simp
  show ?thesis by (rule fixLinks_identity_without_attributes [OF h])
qed

subsection \<open>C10: the existence of \<open>conf.py\<close>\<close>

text \<open>
  C10, as amended. Take two requests of the Sphinx branch that differ only in the answer
  of \<open>existsSync\<close> for \<open>conf.py\<close>. If, in the request without the file, the reset of the
  status bar resolves, and what \<open>compile\<close> reads after it (the error flag, the ready
  flag and the build directory of the backend, the working directory, the files read) is
  then as it was, the two requests have the same outcome: the existence of \<open>conf.py\<close> has
  no influence on the page returned.
\<close>

theorem compile_outcome_independent_of_conf_py:
  assumes "confPyDir \<noteq> []" and "getPreviewName env \<noteq> ''docutils''"
    and "exPresent (join [confPyDir, ''conf.py''])" and "\<not> exAbsent (join [confPyDir, ''conf.py''])"
    and "status env = Some st"
    and "reset st (worldOf (env\<lparr>existsSync := exAbsent\<rparr>)) = Inr w"
    and "esbonio_error w = esbonio_error env" and "esbonio_ready w = esbonio_ready env"
    and "esbonio_buildDir w = esbonio_buildDir env" and "cwd w = cwd env"
    and "readFile w = readFile env"
  shows "fst (compile (env\<lparr>existsSync := exPresent\<rparr>) fname u confPyDir fl wv)
         = fst (compile (env\<lparr>existsSync := exAbsent\<rparr>) fname u confPyDir fl wv)"
proof -
  let ?e1 = "env\<lparr>existsSync := exPresent\<rparr>" and ?e2 = "env\<lparr>existsSync := exAbsent\<rparr>"
  let ?p = "builtHtmlPath (cwd env) confPyDir (esbonio_buildDir env) (fsPath u)"
  have n: "getPreviewName (env\<lparr>existsSync := ex\<rparr>) \<noteq> ''docutils''" for ex
    using assms(2) by simp
  have a1: "afterConfCheck ?e1 confPyDir = Some ?e1"
    using assms(3) by (simp add: afterConfCheck_def)
  have a2: "afterConfCheck ?e2 confPyDir = Some (inWorld ?e2 w)"
    using assms(4,5,6) by (simp add: afterConfCheck_def)
  have p: "previewPage ?e1 ?p confPyDir fl wv = previewPage (inWorld ?e2 w) ?p confPyDir fl wv"
    by (rule previewPage_readFile) (simp add: inWorld_reads assms(11))
  show ?thesis
    using compile_project(1) [OF assms(1) n a1, of fname u fl wv]
      compile_project(1) [OF assms(1) n a2, of fname u fl wv] p
    by (simp add: inWorld_reads assms(7-10))
qed

text \<open>
  The claim as stated fails when the reset rejects. In the two runs below the projects
  differ in the existence of \<open>conf.py\<close> only; without the file the run is rejected, with
  it the page is returned.
\<close>

theorem compile_conf_py_counterexample:
  \<open>existsSync missingConfEnv ''/proj/conf.py'' \<noteq> existsSync resetFailsEnv ''/proj/conf.py'' \<and>
   fst (compile missingConfEnv ''/proj/docs/index.rst'' (uri sampleDoc) ''/proj'' True sampleWebview)
     = Inl sampleError \<and>
   fst (compile resetFailsEnv ''/proj/docs/index.rst'' (uri sampleDoc) ''/proj'' True sampleWebview)
     = Inr ''<img src="sandbox://proj/_build/html/docs/a.png">''\<close>
  by code_simp

theorem compile_outcome_independent_of_conf_py_witness:
  "fst (compile sampleEnv ''/proj/docs/index.rst'' (uri sampleDoc) ''/proj'' True sampleWebview)
   = fst (compile noConfEnv ''/proj/docs/index.rst'' (uri sampleDoc) ''/proj'' True sampleWebview)"
proof -
  have j: "join [''/proj'', ''conf.py''] = ''/proj/conf.py''" by code_simp
  have h2: "getPreviewName sampleEnv \<noteq> ''docutils''" by code_simp
  have h3: "existsSync sampleEnv (join [''/proj'', ''conf.py''])"
    by (simp add: j sampleEnv_def)
  have h5: "status sampleEnv = Some sampleStatus" by (simp add: sampleEnv_def)
  have h6: "reset sampleStatus (worldOf (sampleEnv\<lparr>existsSync := (\<lambda>_. False)\<rparr>))
            = Inr (worldOf (sampleEnv\<lparr>existsSync := (\<lambda>_. False)\<rparr>))"
    by (simp add: sampleStatus_def)
  have "fst (compile (sampleEnv\<lparr>existsSync := existsSync sampleEnv\<rparr>)
               ''/proj/docs/index.rst'' (uri sampleDoc) ''/proj'' True sampleWebview)
        = fst (compile (sampleEnv\<lparr>existsSync := (\<lambda>_. False)\<rparr>)
                 ''/proj/docs/index.rst'' (uri sampleDoc) ''/proj'' True sampleWebview)"
    by (rule compile_outcome_independent_of_conf_py
          [where env = sampleEnv and st = sampleStatus and exPresent = "existsSync sampleEnv"
             and exAbsent = "\<lambda>_. False"
             and w = "worldOf (sampleEnv\<lparr>existsSync := (\<lambda>_. False)\<rparr>)"])
       (simp_all add: h2 h3 h5 h6, simp_all add: worldOf_def)
  then show ?thesis by (simp add: noConfEnv_def)
qed

text \<open>
  The second condition is needed as well. When the reset resolves while the backend runs
  into a build error, the request without \<open>conf.py\<close> gets the page of build errors, and
  the request with it gets the built page.
\<close>

lemma compile_reset_changes_backend:
  \<open>fst (compile resetBreaksBuildNoConfEnv ''/proj/docs/index.rst'' (uri sampleDoc) ''/proj'' True
          sampleWebview)
     = Inr (showHelp ''<p>Esbonio detected build errors.</p>'' ''Not Available'') \<and>
   fst (compile resetBreaksBuildEnv ''/proj/docs/index.rst'' (uri sampleDoc) ''/proj'' True
          sampleWebview)
     = Inr ''<img src="sandbox://proj/_build/html/docs/a.png">''\<close>
  by code_simp

end
